theory Spec2Isabelle
  imports Main "HOL-Library.Word"
begin

section \<open>The notes API of teen\_theory\_backend\<close>

text \<open>
  A shallow embedding of \<^verbatim>\<open>src/Routes/notes.py\<close> and \<^verbatim>\<open>src/models/notes_model.py\<close>:
  the five request handlers \<^verbatim>\<open>create_note\<close>, \<^verbatim>\<open>get_all_notes\<close>, \<^verbatim>\<open>get_my_notes\<close>,
  \<^verbatim>\<open>update_note\<close> and \<^verbatim>\<open>delete_note\<close>, and the two pydantic models. Every handler takes
  the database it reads and returns the database it leaves behind next to its result;
  a raised \<^verbatim>\<open>HTTPException\<close> is the left summand of the result.
\<close>

subsection \<open>Object identifiers\<close>

text \<open>
  Modelled from the spec: \<^verbatim>\<open>bson.objectid.ObjectId\<close> is imported by the handlers and is not
  under \<^verbatim>\<open>src/\<close>. The storage-native identifier is a 12-byte value, here a 96-bit word.
  \<^verbatim>\<open>str(oid)\<close> is its rendering as 24 lower-case hexadecimal digits; \<^verbatim>\<open>ObjectId(s)\<close> parses a
  string of exactly 24 hexadecimal digits (either case) and raises on every other string,
  which is \<open>None\<close> here. Strings are byte strings in HOL, so a Python string is taken to be
  ASCII.
\<close>

type_synonym ObjectId = "96 word"

definition hexdigits :: string where
  "hexdigits = ''0123456789abcdef''"

fun hexlify :: "nat \<Rightarrow> nat \<Rightarrow> string" where
  "hexlify 0 v = []"
| "hexlify (Suc n) v = hexlify n (v div 16) @ [hexdigits ! (v mod 16)]"

definition str_ObjectId :: "ObjectId \<Rightarrow> string" where
  "str_ObjectId oid = hexlify 24 (unat oid)"

definition hex_val :: "char \<Rightarrow> nat option" where
  "hex_val c =
     (let n = (of_char c :: nat) in
      if 48 \<le> n \<and> n \<le> 57 then Some (n - 48)
      else if 97 \<le> n \<and> n \<le> 102 then Some (n - 87)
      else if 65 \<le> n \<and> n \<le> 70 then Some (n - 55)
      else None)"

fun fromhex :: "nat \<Rightarrow> string \<Rightarrow> nat option" where
  "fromhex acc [] = Some acc"
| "fromhex acc (c # cs) =
     (case hex_val c of None \<Rightarrow> None | Some d \<Rightarrow> fromhex (acc * 16 + d) cs)"

definition ObjectId :: "string \<Rightarrow> ObjectId option" where
  "ObjectId oid =
     (if length oid = 24
      then (case fromhex 0 oid of None \<Rightarrow> None | Some v \<Rightarrow> Some (of_nat v))
      else None)"

subsection \<open>Documents and models\<close>

text \<open>
  A user document of the user collection; the handlers read its \<^verbatim>\<open>token\<close> (in the query)
  and its \<^verbatim>\<open>email\<close>.
\<close>

record user =
  email :: string
  token :: string

text \<open>
  A note document. The field \<open>doc_id\<close> is the key \<^verbatim>\<open>"_id"\<close> of the source and \<open>notes_text\<close> its key
  \<^verbatim>\<open>"notes"\<close> (\<open>notes\<close> is a keyword of Isabelle, and a name
  cannot start with an underscore). Its type is a parameter: an \<open>ObjectId\<close> in the
  collection, a \<open>string\<close> once a handler has replaced it by \<^verbatim>\<open>str(note["_id"])\<close>, and
  \<open>string option\<close> in the request model \<^verbatim>\<open>NoteModel\<close>, whose \<^verbatim>\<open>id\<close> is \<^verbatim>\<open>Optional[str]\<close> with
  alias \<^verbatim>\<open>"_id"\<close>.
\<close>

record 'i note_doc =
  doc_id :: 'i
  project_name :: string
  created_by_user_email :: string
  created_date :: string
  notes_text :: string

type_synonym NoteModel = "string option note_doc"

text \<open>\<^verbatim>\<open>NoteUpdateModel\<close>: both fields are \<^verbatim>\<open>Optional[str] = None\<close>.\<close>

record NoteUpdateModel =
  update_project_name :: "string option"
  update_notes :: "string option"

record db =
  user_collection :: "user list"
  notes_collection :: "ObjectId note_doc list"

text \<open>
  What a handler raises: \<^verbatim>\<open>HTTPException(status_code, detail)\<close>; the validation error
  FastAPI answers (status 422) when the request body is not a valid model, before the
  handler runs; and an exception the handler does not catch.
\<close>

datatype error =
  HTTPException (status_code: nat) (detail: string)
| RequestValidationError
| InternalServerError

text \<open>
  The response envelopes, in the shapes the handlers return. In the data object of a delete
  response, \<open>deleted_id\<close> is the key \<^verbatim>\<open>"_id"\<close> of the source.
\<close>

record 'a envelope =
  success :: bool
  message :: string
  data :: 'a

record 'a list_envelope = "'a list envelope" +
  count :: nat

record deleted_data =
  deleted_id :: string
  deleted :: bool

definition with_id :: "'j \<Rightarrow> 'i note_doc \<Rightarrow> 'j note_doc" where
  "with_id i n =
     \<lparr>doc_id = i, project_name = project_name n,
      created_by_user_email = created_by_user_email n,
      created_date = created_date n, notes_text = notes_text n\<rparr>"

text \<open>\<^verbatim>\<open>note["_id"] = str(note["_id"])\<close>\<close>

definition stringify_id :: "ObjectId note_doc \<Rightarrow> string note_doc" where
  "stringify_id n = with_id (str_ObjectId (doc_id n)) n"

subsection \<open>The collections\<close>

text \<open>
  Modelled from the spec: \<^verbatim>\<open>db.database\<close> (the functions \<^verbatim>\<open>notes\<close> and
  \<^verbatim>\<open>get_user_collection\<close>) and the document store behind it are not under \<^verbatim>\<open>src/\<close>. A
  collection is the list of its documents in storage order. The user store answers
  \<^verbatim>\<open>find_one({"token": token})\<close> with the first user whose token equals the credential
  exactly; the note store has insert (the identifier is generated by the store, here an
  argument), find-all, find-by-filter on \<^verbatim>\<open>created_by_user_email\<close>, find-by-id,
  update-by-id with \<^verbatim>\<open>$set\<close> (merge: the named fields change, the others are retained) and
  delete-by-id.
\<close>

definition find_one_token :: "user list \<Rightarrow> string \<Rightarrow> user option" where
  "find_one_token coll t = find (\<lambda>u. token u = t) coll"

definition find_one_id :: "ObjectId note_doc list \<Rightarrow> ObjectId \<Rightarrow> ObjectId note_doc option" where
  "find_one_id coll oid = find (\<lambda>n. doc_id n = oid) coll"

definition find_all :: "ObjectId note_doc list \<Rightarrow> ObjectId note_doc list" where
  "find_all coll = coll"

definition find_by_email :: "ObjectId note_doc list \<Rightarrow> string \<Rightarrow> ObjectId note_doc list" where
  "find_by_email coll e = filter (\<lambda>n. created_by_user_email n = e) coll"

definition insert_one :: "ObjectId note_doc list \<Rightarrow> ObjectId \<Rightarrow> 'i note_doc \<Rightarrow> ObjectId note_doc list" where
  "insert_one coll inserted_id doc = coll @ [with_id inserted_id doc]"

text \<open>
  \<^verbatim>\<open>{"$set": fields}\<close> on one document: each named field takes the given value. The store
  sets whichever field is named; that an update never names \<^verbatim>\<open>created_by_user_email\<close> or
  \<^verbatim>\<open>created_date\<close> is the handler's doing. A name that is no field of the note entity
  leaves the record as it is.
\<close>

fun set_field :: "string \<times> string \<Rightarrow> 'i note_doc \<Rightarrow> 'i note_doc" where
  "set_field (k, v) n =
     (if k = ''project_name'' then n\<lparr>project_name := v\<rparr>
      else if k = ''created_by_user_email'' then n\<lparr>created_by_user_email := v\<rparr>
      else if k = ''created_date'' then n\<lparr>created_date := v\<rparr>
      else if k = ''notes'' then n\<lparr>notes_text := v\<rparr>
      else n)"

definition set_fields :: "(string \<times> string) list \<Rightarrow> 'i note_doc \<Rightarrow> 'i note_doc" where
  "set_fields upd n = fold set_field upd n"

fun update_one :: "ObjectId note_doc list \<Rightarrow> ObjectId \<Rightarrow> (string \<times> string) list \<Rightarrow> ObjectId note_doc list" where
  "update_one [] oid upd = []"
| "update_one (n # ns) oid upd =
     (if doc_id n = oid then set_fields upd n # ns else n # update_one ns oid upd)"

fun delete_one :: "ObjectId note_doc list \<Rightarrow> ObjectId \<Rightarrow> ObjectId note_doc list" where
  "delete_one [] oid = []"
| "delete_one (n # ns) oid = (if doc_id n = oid then ns else n # delete_one ns oid)"

subsection \<open>The clock\<close>

text \<open>
  \<^verbatim>\<open>datetime.now().strftime("%Y-%m-%d %H:%M:%S")\<close>: the current time is an argument of the
  create handler. A \<^verbatim>\<open>datetime\<close> has its year in 1..9999, month in 1..12, day in 1..31,
  hour below 24, minute and second below 60, so each directive is the zero-padded decimal
  of its field, four digits for the year and two for the others.
\<close>

record datetime =
  year :: nat
  month :: nat
  day :: nat
  hour :: nat
  minute :: nat
  second :: nat

definition digit :: "nat \<Rightarrow> char" where
  "digit n = ''0123456789'' ! (n mod 10)"

definition dec2 :: "nat \<Rightarrow> string" where
  "dec2 n = [digit (n div 10), digit n]"

definition dec4 :: "nat \<Rightarrow> string" where
  "dec4 n = [digit (n div 1000), digit (n div 100), digit (n div 10), digit n]"

definition strftime :: "datetime \<Rightarrow> string" where
  "strftime t =
     dec4 (year t) @ ''-'' @ dec2 (month t) @ ''-'' @ dec2 (day t) @ '' '' @
     dec2 (hour t) @ '':'' @ dec2 (minute t) @ '':'' @ dec2 (second t)"

subsection \<open>Request bodies\<close>

text \<open>
  A JSON request body is an object, a finite map from keys to JSON values. Validation
  against a pydantic model (version 2, as the \<^verbatim>\<open>Config\<close> keys \<^verbatim>\<open>populate_by_name\<close> and
  \<^verbatim>\<open>json_schema_extra\<close> show): a field of type \<^verbatim>\<open>str\<close> with no default must be present and a
  string; a field of type \<^verbatim>\<open>Optional[str] = None\<close> may be absent or null, and otherwise
  must be a string; keys that are no field of the model are ignored. With
  \<^verbatim>\<open>populate_by_name\<close> the field \<^verbatim>\<open>id\<close> is read from the key \<^verbatim>\<open>"_id"\<close> (its alias) or, when
  that is absent, from \<^verbatim>\<open>"id"\<close>.
\<close>

datatype json =
  JNull
| JBool bool
| JNum int
| JStr string
| JArray "json list"
| JObject "(string \<times> json) list"

type_synonym body = "string \<rightharpoonup> json"


fun optional_str :: "json option \<Rightarrow> string option option" where
  "optional_str None = Some None"
| "optional_str (Some JNull) = Some None"
| "optional_str (Some (JStr s)) = Some (Some s)"
| "optional_str _ = None"



definition NoteUpdateModel_validate :: "body \<Rightarrow> NoteUpdateModel option" where
  "NoteUpdateModel_validate b =
     (case optional_str (b ''project_name'') of None \<Rightarrow> None | Some p \<Rightarrow>
     (case optional_str (b ''notes'') of None \<Rightarrow> None | Some n \<Rightarrow>
        Some \<lparr>update_project_name = p, update_notes = n\<rparr>))"

subsection \<open>The handlers\<close>

definition unauthorized :: error where
  "unauthorized = HTTPException 401 ''Invalid or expired token''"

text \<open>
  \<^verbatim>\<open>create_note\<close>. The arguments \<open>now\<close> and \<open>inserted_id\<close> are what \<^verbatim>\<open>datetime.now()\<close> and
  the store's \<^verbatim>\<open>insert_one\<close> produce during the call.
\<close>

definition create_note ::
  "db \<Rightarrow> datetime \<Rightarrow> ObjectId \<Rightarrow> NoteModel \<Rightarrow> string \<Rightarrow> (error + string note_doc envelope) \<times> db" where
  "create_note d now inserted_id note_data credentials =
     (case find_one_token (user_collection d) credentials of
        None \<Rightarrow> (Inl unauthorized, d)
      | Some user \<Rightarrow>
          let created_by_email = email user;
              note_doc = \<lparr>doc_id = (), project_name = project_name note_data,
                          created_by_user_email = created_by_email,
                          created_date = strftime now,
                          notes_text = notes_text note_data\<rparr>;
              d' = d\<lparr>notes_collection := insert_one (notes_collection d) inserted_id note_doc\<rparr>
          in (Inr \<lparr>success = True, message = ''Note created successfully'',
                   data = with_id (str_ObjectId inserted_id) note_doc\<rparr>, d'))"

definition get_all_notes :: "db \<Rightarrow> string \<Rightarrow> (error + string note_doc list_envelope) \<times> db" where
  "get_all_notes d credentials =
     (case find_one_token (user_collection d) credentials of
        None \<Rightarrow> (Inl unauthorized, d)
      | Some user \<Rightarrow>
          let all_notes = map stringify_id (find_all (notes_collection d))
          in (Inr \<lparr>success = True, message = ''All notes retrieved successfully'',
                   data = all_notes, count = length all_notes\<rparr>, d))"

definition get_my_notes :: "db \<Rightarrow> string \<Rightarrow> (error + string note_doc list_envelope) \<times> db" where
  "get_my_notes d credentials =
     (case find_one_token (user_collection d) credentials of
        None \<Rightarrow> (Inl unauthorized, d)
      | Some user \<Rightarrow>
          let created_by_email = email user;
              user_notes = map stringify_id (find_by_email (notes_collection d) created_by_email)
          in (Inr \<lparr>success = True, message = ''Your notes retrieved successfully'',
                   data = user_notes, count = length user_notes\<rparr>, d))"

text \<open>
  The dictionary \<^verbatim>\<open>update_fields\<close> of \<^verbatim>\<open>update_note\<close>, as the list of its items: a field of
  the model is included when it \<^verbatim>\<open>is not None\<close>.
\<close>

definition update_fields_of :: "NoteUpdateModel \<Rightarrow> (string \<times> string) list" where
  "update_fields_of update_data =
     (case update_project_name update_data of None \<Rightarrow> [] | Some p \<Rightarrow> [(''project_name'', p)]) @
     (case update_notes update_data of None \<Rightarrow> [] | Some n \<Rightarrow> [(''notes'', n)])"

definition update_note ::
  "db \<Rightarrow> string \<Rightarrow> NoteUpdateModel \<Rightarrow> string \<Rightarrow> (error + string note_doc envelope) \<times> db" where
  "update_note d note_id update_data credentials =
     (case find_one_token (user_collection d) credentials of
        None \<Rightarrow> (Inl unauthorized, d)
      | Some user \<Rightarrow>
          let created_by_email = email user in
          (case ObjectId note_id of
             None \<Rightarrow> (Inl (HTTPException 400 ''Invalid note ID format''), d)
           | Some object_id \<Rightarrow>
               (case find_one_id (notes_collection d) object_id of
                  None \<Rightarrow> (Inl (HTTPException 404 ''Note not found''), d)
                | Some note \<Rightarrow>
                    if created_by_user_email note \<noteq> created_by_email
                    then (Inl (HTTPException 403 ''You can only update your own notes''), d)
                    else
                      let update_fields = update_fields_of update_data in
                      if update_fields = []
                      then (Inl (HTTPException 400 ''No fields to update''), d)
                      else
                        let d' = d\<lparr>notes_collection :=
                                     update_one (notes_collection d) object_id update_fields\<rparr>
                        in (case find_one_id (notes_collection d') object_id of
                              None \<Rightarrow> (Inl InternalServerError, d')
                            | Some updated_note \<Rightarrow>
                                (Inr \<lparr>success = True, message = ''Note updated successfully'',
                                      data = stringify_id updated_note\<rparr>, d')))))"

definition delete_note ::
  "db \<Rightarrow> string \<Rightarrow> string \<Rightarrow> (error + deleted_data envelope) \<times> db" where
  "delete_note d note_id credentials =
     (case find_one_token (user_collection d) credentials of
        None \<Rightarrow> (Inl unauthorized, d)
      | Some user \<Rightarrow>
          let created_by_email = email user in
          (case ObjectId note_id of
             None \<Rightarrow> (Inl (HTTPException 400 ''Invalid note ID format''), d)
           | Some object_id \<Rightarrow>
               (case find_one_id (notes_collection d) object_id of
                  None \<Rightarrow> (Inl (HTTPException 404 ''Note not found''), d)
                | Some note \<Rightarrow>
                    if created_by_user_email note \<noteq> created_by_email
                    then (Inl (HTTPException 403 ''You can only delete your own notes''), d)
                    else
                      let d' = d\<lparr>notes_collection := delete_one (notes_collection d) object_id\<rparr>
                      in (Inr \<lparr>success = True, message = ''Note deleted successfully'',
                               data = \<lparr>deleted_id = note_id, deleted = True\<rparr>\<rparr>, d'))))"


text \<open>The route \<^verbatim>\<open>PUT /notes/update/{note_id}\<close>, with the body validated as \<^verbatim>\<open>NoteUpdateModel\<close>.\<close>

definition put_update ::
  "db \<Rightarrow> string \<Rightarrow> body \<Rightarrow> string \<Rightarrow> (error + string note_doc envelope) \<times> db" where
  "put_update d note_id b credentials =
     (case NoteUpdateModel_validate b of
        None \<Rightarrow> (Inl RequestValidationError, d)
      | Some update_data \<Rightarrow> update_note d note_id update_data credentials)"

subsection \<open>A sample database\<close>

definition alice :: user where
  "alice = \<lparr>email = ''alice@x.com'', token = ''tok-alice''\<rparr>"

definition bob :: user where
  "bob = \<lparr>email = ''bob@x.com'', token = ''tok-bob''\<rparr>"

definition site_note :: "ObjectId note_doc" where
  "site_note =
     \<lparr>doc_id = 10, project_name = ''Site'', created_by_user_email = ''alice@x.com'',
      created_date = ''2026-02-04 14:30:00'', notes_text = ''draft''\<rparr>"

definition blog_note :: "ObjectId note_doc" where
  "blog_note =
     \<lparr>doc_id = 2, project_name = ''Blog'', created_by_user_email = ''bob@x.com'',
      created_date = ''2026-02-05 09:00:00'', notes_text = ''ideas''\<rparr>"

definition sample_db :: db where
  "sample_db = \<lparr>user_collection = [alice, bob], notes_collection = [site_note, blog_note]\<rparr>"

definition sample_now :: datetime where
  "sample_now = \<lparr>year = 2026, month = 2, day = 4, hour = 14, minute = 30, second = 0\<rparr>"

definition final_note :: "ObjectId note_doc" where
  "final_note = site_note\<lparr>notes_text := ''final''\<rparr>"

definition updated_db :: db where
  "updated_db = sample_db\<lparr>notes_collection := [final_note, blog_note]\<rparr>"

definition mallory_note :: NoteModel where
  "mallory_note =
     \<lparr>doc_id = None, project_name = ''P'', created_by_user_email = ''mallory@x.com'',
      created_date = ''1999-01-01 00:00:00'', notes_text = ''N''\<rparr>"



definition carol :: user where
  "carol = \<lparr>email = ''carol@x.com'', token = ''tok-bob''\<rparr>"

definition shared_token_db :: db where
  "shared_token_db = \<lparr>user_collection = [bob, carol], notes_collection = [site_note]\<rparr>"

definition bobs_new_note :: "ObjectId note_doc" where
  "bobs_new_note =
     \<lparr>doc_id = 3, project_name = ''P'', created_by_user_email = ''bob@x.com'',
      created_date = ''2026-02-04 14:30:00'', notes_text = ''N''\<rparr>"

section \<open>Properties\<close>

subsection \<open>Identifiers and lookups\<close>

lemma length_hexlify: "length (hexlify n v) = n"
  by (induction n arbitrary: v) simp_all

lemma str_ObjectId_length: "length (str_ObjectId oid) = 24"
  by (simp add: str_ObjectId_def length_hexlify)

lemma hex_val_hexdigits: "k < 16 \<Longrightarrow> hex_val (hexdigits ! k) = Some k"
proof -
  assume "k < 16"
  then have "k \<in> {0, 1, 2, 3, 4, 5, 6, 7, 8, 9, 10, 11, 12, 13, 14, 15}"
    by simp presburger
  then show ?thesis
    by (auto simp: hex_val_def hexdigits_def)
qed

lemma fromhex_append:
  "fromhex acc (xs @ ys) = (case fromhex acc xs of None \<Rightarrow> None | Some a \<Rightarrow> fromhex a ys)"
  by (induction xs arbitrary: acc) (simp_all split: option.splits)

lemma fromhex_hexlify: "fromhex acc (hexlify n v) = Some (acc * 16 ^ n + v mod 16 ^ n)"
proof (induction n arbitrary: v)
  case 0
  show ?case by simp
next
  case (Suc n)
  have digit: "hex_val (hexdigits ! (v mod 16)) = Some (v mod 16)"
    by (rule hex_val_hexdigits) simp
  have split: "v mod (16 * 16 ^ n) = 16 * (v div 16 mod 16 ^ n) + v mod 16"
    by (rule mod_mult2_eq)
  show ?case
    by (simp add: fromhex_append Suc.IH digit split algebra_simps)
qed

lemma ObjectId_str_ObjectId: "ObjectId (str_ObjectId oid) = Some oid"
proof -
  have "unat oid < 2 ^ 96"
    using unsigned_less [of oid] by simp
  then have "unat oid mod 16 ^ 24 = unat oid"
    by simp
  then show ?thesis
    by (simp add: ObjectId_def str_ObjectId_def length_hexlify fromhex_hexlify)
qed

lemma find_one_token_None:
  "\<forall>u \<in> set coll. token u \<noteq> t \<Longrightarrow> find_one_token coll t = None"
  by (simp add: find_one_token_def find_None_iff)

lemma find_one_token_distinct:
  "distinct (map token coll) \<Longrightarrow> u \<in> set coll \<Longrightarrow> find_one_token coll (token u) = Some u"
  unfolding find_one_token_def
  by (induction coll) (auto simp: image_iff)

lemma find_one_id_distinct:
  "distinct (map doc_id coll) \<Longrightarrow> n \<in> set coll \<Longrightarrow> find_one_id coll (doc_id n) = Some n"
  unfolding find_one_id_def
  by (induction coll) (auto simp: image_iff)

subsection \<open>The sample database\<close>

lemma sample_tokens:
  "find_one_token (user_collection sample_db) ''tok-alice'' = Some alice"
  "find_one_token (user_collection sample_db) ''tok-bob'' = Some bob"
  "find_one_token (user_collection sample_db) ''tok-none'' = None"
  by (simp_all add: find_one_token_def sample_db_def alice_def bob_def)

lemma sample_ids:
  "ObjectId ''00000000000000000000000a'' = Some 10"
  "ObjectId ''00000000000000000000000A'' = Some 10"
  "ObjectId ''000000000000000000000002'' = Some 2"
  "ObjectId ''000000000000000000000003'' = Some 3"
  "ObjectId ''not-an-id'' = None"
  by code_simp+

lemma sample_notes:
  "find_one_id (notes_collection sample_db) 10 = Some site_note"
  "find_one_id (notes_collection sample_db) 2 = Some blog_note"
  "find_one_id (notes_collection sample_db) 3 = None"
  by (simp_all add: find_one_id_def sample_db_def site_note_def blog_note_def)


subsection \<open>Authentication and ownership\<close>

text \<open>
  Claim C3. In each of the five operations, when no user of the user store has a token equal
  to the presented credential (string equality, so case-sensitive), the operation fails with
  status 401 and the message "Invalid or expired token", and the database it leaves is the
  database it was given.
\<close>

theorem invalid_token_unauthorized:
  assumes "\<forall>u \<in> set (user_collection d). token u \<noteq> credentials"
  shows "create_note d now inserted_id note_data credentials =
           (Inl (HTTPException 401 ''Invalid or expired token''), d) \<and>
         get_all_notes d credentials =
           (Inl (HTTPException 401 ''Invalid or expired token''), d) \<and>
         get_my_notes d credentials =
           (Inl (HTTPException 401 ''Invalid or expired token''), d) \<and>
         update_note d note_id update_data credentials =
           (Inl (HTTPException 401 ''Invalid or expired token''), d) \<and>
         delete_note d note_id credentials =
           (Inl (HTTPException 401 ''Invalid or expired token''), d)"
proof -
  have none: "find_one_token (user_collection d) credentials = None"
    using assms by (rule find_one_token_None)
  show ?thesis
    by (simp add: none create_note_def get_all_notes_def get_my_notes_def
        update_note_def delete_note_def unauthorized_def)
qed

theorem invalid_token_unauthorized_witness:
  "create_note sample_db sample_now 3
       \<lparr>doc_id = None, project_name = ''P'', created_by_user_email = ''x'',
        created_date = ''y'', notes_text = ''N''\<rparr> ''tok-none'' =
     (Inl (HTTPException 401 ''Invalid or expired token''), sample_db) \<and>
   get_all_notes sample_db ''tok-none'' =
     (Inl (HTTPException 401 ''Invalid or expired token''), sample_db) \<and>
   get_my_notes sample_db ''tok-none'' =
     (Inl (HTTPException 401 ''Invalid or expired token''), sample_db) \<and>
   update_note sample_db ''00000000000000000000000a''
       \<lparr>update_project_name = None, update_notes = Some ''final''\<rparr> ''tok-none'' =
     (Inl (HTTPException 401 ''Invalid or expired token''), sample_db) \<and>
   delete_note sample_db ''00000000000000000000000a'' ''tok-none'' =
     (Inl (HTTPException 401 ''Invalid or expired token''), sample_db)"
proof -
  have h: "\<forall>u \<in> set (user_collection sample_db). token u \<noteq> ''tok-none''"
    by (simp add: sample_db_def alice_def bob_def)
  show ?thesis
    by (rule invalid_token_unauthorized [OF h])
qed

text \<open>
  Claim C9. Update and delete authenticate before they parse the identifier: with a token
  that no user has and a \<^verbatim>\<open>note_id\<close> that does not parse, the result is 401 "Invalid or expired
  token", not 400, and the database is unchanged.
\<close>

theorem authentication_before_parsing:
  assumes "\<forall>u \<in> set (user_collection d). token u \<noteq> credentials"
    and "ObjectId note_id = None"
  shows "update_note d note_id update_data credentials =
           (Inl (HTTPException 401 ''Invalid or expired token''), d) \<and>
         delete_note d note_id credentials =
           (Inl (HTTPException 401 ''Invalid or expired token''), d)"
proof -
  have none: "find_one_token (user_collection d) credentials = None"
    using assms(1) by (rule find_one_token_None)
  show ?thesis
    by (simp add: none update_note_def delete_note_def unauthorized_def)
qed

theorem authentication_before_parsing_witness:
  "update_note sample_db ''not-an-id''
       \<lparr>update_project_name = None, update_notes = Some ''final''\<rparr> ''tok-none'' =
     (Inl (HTTPException 401 ''Invalid or expired token''), sample_db) \<and>
   delete_note sample_db ''not-an-id'' ''tok-none'' =
     (Inl (HTTPException 401 ''Invalid or expired token''), sample_db)"
proof -
  have h: "\<forall>u \<in> set (user_collection sample_db). token u \<noteq> ''tok-none''"
    by (simp add: sample_db_def alice_def bob_def)
  have p: "ObjectId ''not-an-id'' = None"
    by (simp add: ObjectId_def)
  show ?thesis
    by (rule authentication_before_parsing [OF h p])
qed

text \<open>
  Claim C1. For a stored note \<open>n\<close> (identifiers in the collection being unique) and an
  authenticated user \<open>u\<close> whose email differs from the note's \<^verbatim>\<open>created_by_user_email\<close>, update
  on the note's identifier fails with 403 "You can only update your own notes", delete fails
  with 403 "You can only delete your own notes", and the database, so the note too, is
  unchanged.
\<close>

theorem non_owner_forbidden:
  assumes auth: "find_one_token (user_collection d) credentials = Some u"
    and stored: "n \<in> set (notes_collection d)"
    and unique: "distinct (map doc_id (notes_collection d))"
    and ident: "ObjectId note_id = Some (doc_id n)"
    and other: "email u \<noteq> created_by_user_email n"
  shows "update_note d note_id update_data credentials =
           (Inl (HTTPException 403 ''You can only update your own notes''), d) \<and>
         delete_note d note_id credentials =
           (Inl (HTTPException 403 ''You can only delete your own notes''), d)"
proof -
  have found: "find_one_id (notes_collection d) (doc_id n) = Some n"
    using unique stored by (rule find_one_id_distinct)
  from other have neq: "created_by_user_email n \<noteq> email u"
    by (rule not_sym)
  show ?thesis
    by (simp add: update_note_def delete_note_def auth ident found neq)
qed

theorem non_owner_forbidden_witness:
  "update_note sample_db (str_ObjectId (doc_id site_note))
       \<lparr>update_project_name = None, update_notes = Some ''final''\<rparr> ''tok-bob'' =
     (Inl (HTTPException 403 ''You can only update your own notes''), sample_db) \<and>
   delete_note sample_db (str_ObjectId (doc_id site_note)) ''tok-bob'' =
     (Inl (HTTPException 403 ''You can only delete your own notes''), sample_db)"
proof -
  have a: "find_one_token (user_collection sample_db) ''tok-bob'' = Some bob"
    by (simp add: find_one_token_def sample_db_def alice_def bob_def)
  have s: "site_note \<in> set (notes_collection sample_db)"
    by (simp add: sample_db_def)
  have u: "distinct (map doc_id (notes_collection sample_db))"
    by (simp add: sample_db_def site_note_def blog_note_def)
  have i: "ObjectId (str_ObjectId (doc_id site_note)) = Some (doc_id site_note)"
    by (rule ObjectId_str_ObjectId)
  have e: "email bob \<noteq> created_by_user_email site_note"
    by (simp add: bob_def site_note_def)
  show ?thesis
    by (rule non_owner_forbidden [OF a s u i e])
qed

subsection \<open>Error precedence\<close>

lemma update_fields_of_empty:
  "update_fields_of update_data = [] \<longleftrightarrow>
     update_project_name update_data = None \<and> update_notes update_data = None"
  by (simp add: update_fields_of_def split: option.splits)

text \<open>
  Claim C5. For an authenticated update or delete the checks come in this order, each error
  leaving the database as it was: a \<^verbatim>\<open>note_id\<close> that does not parse gives 400 "Invalid note
  ID format"; otherwise a note that is not found gives 404 "Note not found"; otherwise a
  caller who is not the creator gives 403; and, for update only, otherwise a model with
  neither \<^verbatim>\<open>project_name\<close> nor \<^verbatim>\<open>notes\<close> gives 400 "No fields to update".
\<close>

theorem error_precedence:
  assumes auth: "find_one_token (user_collection d) credentials = Some u"
  shows "(ObjectId note_id = None \<longrightarrow>
            update_note d note_id update_data credentials =
              (Inl (HTTPException 400 ''Invalid note ID format''), d) \<and>
            delete_note d note_id credentials =
              (Inl (HTTPException 400 ''Invalid note ID format''), d)) \<and>
         (\<forall>oid. ObjectId note_id = Some oid \<and> find_one_id (notes_collection d) oid = None \<longrightarrow>
            update_note d note_id update_data credentials =
              (Inl (HTTPException 404 ''Note not found''), d) \<and>
            delete_note d note_id credentials =
              (Inl (HTTPException 404 ''Note not found''), d)) \<and>
         (\<forall>oid n. ObjectId note_id = Some oid \<and> find_one_id (notes_collection d) oid = Some n \<and>
              created_by_user_email n \<noteq> email u \<longrightarrow>
            update_note d note_id update_data credentials =
              (Inl (HTTPException 403 ''You can only update your own notes''), d) \<and>
            delete_note d note_id credentials =
              (Inl (HTTPException 403 ''You can only delete your own notes''), d)) \<and>
         (\<forall>oid n. ObjectId note_id = Some oid \<and> find_one_id (notes_collection d) oid = Some n \<and>
              created_by_user_email n = email u \<and>
              update_project_name update_data = None \<and> update_notes update_data = None \<longrightarrow>
            update_note d note_id update_data credentials =
              (Inl (HTTPException 400 ''No fields to update''), d))"
  by (simp add: update_note_def delete_note_def auth update_fields_of_empty)

theorem error_precedence_witness:
  "update_note sample_db ''not-an-id'' \<lparr>update_project_name = None, update_notes = None\<rparr> ''tok-bob'' =
     (Inl (HTTPException 400 ''Invalid note ID format''), sample_db) \<and>
   delete_note sample_db ''not-an-id'' ''tok-bob'' =
     (Inl (HTTPException 400 ''Invalid note ID format''), sample_db) \<and>
   update_note sample_db ''000000000000000000000003'' \<lparr>update_project_name = None, update_notes = None\<rparr> ''tok-bob'' =
     (Inl (HTTPException 404 ''Note not found''), sample_db) \<and>
   delete_note sample_db ''000000000000000000000003'' ''tok-bob'' =
     (Inl (HTTPException 404 ''Note not found''), sample_db) \<and>
   update_note sample_db ''00000000000000000000000a'' \<lparr>update_project_name = None, update_notes = None\<rparr> ''tok-bob'' =
     (Inl (HTTPException 403 ''You can only update your own notes''), sample_db) \<and>
   delete_note sample_db ''00000000000000000000000a'' ''tok-bob'' =
     (Inl (HTTPException 403 ''You can only delete your own notes''), sample_db) \<and>
   update_note sample_db ''000000000000000000000002'' \<lparr>update_project_name = None, update_notes = None\<rparr> ''tok-bob'' =
     (Inl (HTTPException 400 ''No fields to update''), sample_db)"
proof -
  let ?empty = "\<lparr>update_project_name = None, update_notes = None\<rparr>"
  note auth = sample_tokens(2)
  have other: "created_by_user_email site_note \<noteq> email bob"
    by (simp add: site_note_def bob_def)
  have own: "created_by_user_email blog_note = email bob"
    by (simp add: blog_note_def bob_def)
  have "ObjectId ''not-an-id'' = None"
    by (rule sample_ids)
  with error_precedence [OF auth, of "''not-an-id''" ?empty]
  have bad: "update_note sample_db ''not-an-id'' ?empty ''tok-bob'' =
        (Inl (HTTPException 400 ''Invalid note ID format''), sample_db) \<and>
      delete_note sample_db ''not-an-id'' ''tok-bob'' =
        (Inl (HTTPException 400 ''Invalid note ID format''), sample_db)"
    by blast
  from error_precedence [OF auth, of "''000000000000000000000003''" ?empty]
    sample_ids(4) sample_notes(3)
  have missing: "update_note sample_db ''000000000000000000000003'' ?empty ''tok-bob'' =
        (Inl (HTTPException 404 ''Note not found''), sample_db) \<and>
      delete_note sample_db ''000000000000000000000003'' ''tok-bob'' =
        (Inl (HTTPException 404 ''Note not found''), sample_db)"
    by blast
  from error_precedence [OF auth, of "''00000000000000000000000a''" ?empty]
    sample_ids(1) sample_notes(1) other
  have forbidden: "update_note sample_db ''00000000000000000000000a'' ?empty ''tok-bob'' =
        (Inl (HTTPException 403 ''You can only update your own notes''), sample_db) \<and>
      delete_note sample_db ''00000000000000000000000a'' ''tok-bob'' =
        (Inl (HTTPException 403 ''You can only delete your own notes''), sample_db)"
    by blast
  have "update_project_name ?empty = None \<and> update_notes ?empty = None"
    by simp
  with error_precedence [OF auth, of "''000000000000000000000002''" ?empty]
    sample_ids(3) sample_notes(2) own
  have no_fields: "update_note sample_db ''000000000000000000000002'' ?empty ''tok-bob'' =
        (Inl (HTTPException 400 ''No fields to update''), sample_db)"
    by blast
  from bad missing forbidden no_fields show ?thesis
    by simp
qed

subsection \<open>Update\<close>

lemma set_fields_update_fields_of:
  "set_fields (update_fields_of update_data) n =
     n\<lparr>project_name := (case update_project_name update_data of None \<Rightarrow> project_name n | Some p \<Rightarrow> p),
       notes_text := (case update_notes update_data of None \<Rightarrow> notes_text n | Some t \<Rightarrow> t)\<rparr>"
  by (simp add: set_fields_def update_fields_of_def split: option.splits)

lemma doc_id_set_fields: "doc_id (set_fields upd n) = doc_id n"
  unfolding set_fields_def by (induction upd arbitrary: n) auto

lemma find_one_id_update_one:
  "find_one_id (update_one coll oid upd) oid = map_option (set_fields upd) (find_one_id coll oid)"
  unfolding find_one_id_def by (induction coll) (auto simp: doc_id_set_fields)

lemma update_one_frame:
  "list_all2
     (\<lambda>n n'. (n' = n \<or> doc_id n = oid \<and> n' = set_fields upd n))
     coll (update_one coll oid upd)"
  by (induction coll) (auto simp: list.rel_refl)

text \<open>
  Claim C2. A successful update leaves the user collection alone and relates the note
  collection before and after document by document: identifier, \<^verbatim>\<open>created_by_user_email\<close>
  and \<^verbatim>\<open>created_date\<close> are the same, a field that is absent from the payload keeps its value,
  and a document with another identifier is untouched. The note that is read back and
  returned is the stored note with the payload's fields merged in.
\<close>

theorem update_changes_only_named_fields:
  assumes ok: "update_note d note_id update_data credentials = (Inr r, d')"
  shows "user_collection d' = user_collection d \<and>
         list_all2
           (\<lambda>n n'. doc_id n' = doc_id n \<and>
                    created_by_user_email n' = created_by_user_email n \<and>
                    created_date n' = created_date n \<and>
                    (update_project_name update_data = None \<longrightarrow> project_name n' = project_name n) \<and>
                    (update_notes update_data = None \<longrightarrow> notes_text n' = notes_text n) \<and>
                    (ObjectId note_id \<noteq> Some (doc_id n) \<longrightarrow> n' = n))
           (notes_collection d) (notes_collection d') \<and>
         (\<exists>oid n n'.
              ObjectId note_id = Some oid \<and>
              find_one_id (notes_collection d) oid = Some n \<and>
              find_one_id (notes_collection d') oid = Some n' \<and>
              data r = stringify_id n' \<and>
              doc_id n' = doc_id n \<and>
              created_by_user_email n' = created_by_user_email n \<and>
              created_date n' = created_date n \<and>
              project_name n' =
                (case update_project_name update_data of None \<Rightarrow> project_name n | Some p \<Rightarrow> p) \<and>
              notes_text n' =
                (case update_notes update_data of None \<Rightarrow> notes_text n | Some t \<Rightarrow> t))"
proof -
  let ?upd = "update_fields_of update_data"
  from ok obtain u oid n where
    auth: "find_one_token (user_collection d) credentials = Some u" and
    ident: "ObjectId note_id = Some oid" and
    found: "find_one_id (notes_collection d) oid = Some n" and
    d': "d' = d\<lparr>notes_collection := update_one (notes_collection d) oid ?upd\<rparr>"
    by (auto simp: update_note_def Let_def split: option.splits if_splits)
  have reread: "find_one_id (notes_collection d') oid = Some (set_fields ?upd n)"
    by (simp add: d' find_one_id_update_one found)
  from ok have r: "data r = stringify_id (set_fields ?upd n)"
    using auth ident found reread d'
    by (auto simp: update_note_def Let_def split: option.splits if_splits)
  have users: "user_collection d' = user_collection d"
    by (simp add: d')
  have "list_all2 (\<lambda>n n'. n' = n \<or> doc_id n = oid \<and> n' = set_fields ?upd n)
      (notes_collection d) (notes_collection d')"
    by (simp add: d' update_one_frame)
  then have coll: "list_all2
      (\<lambda>n n'. doc_id n' = doc_id n \<and>
               created_by_user_email n' = created_by_user_email n \<and>
               created_date n' = created_date n \<and>
               (update_project_name update_data = None \<longrightarrow> project_name n' = project_name n) \<and>
               (update_notes update_data = None \<longrightarrow> notes_text n' = notes_text n) \<and>
               (ObjectId note_id \<noteq> Some (doc_id n) \<longrightarrow> n' = n))
      (notes_collection d) (notes_collection d')"
    by (rule list_all2_mono) (auto simp: set_fields_update_fields_of ident)
  have fields: "doc_id (set_fields ?upd n) = doc_id n \<and>
      created_by_user_email (set_fields ?upd n) = created_by_user_email n \<and>
      created_date (set_fields ?upd n) = created_date n \<and>
      project_name (set_fields ?upd n) =
        (case update_project_name update_data of None \<Rightarrow> project_name n | Some p \<Rightarrow> p) \<and>
      notes_text (set_fields ?upd n) =
        (case update_notes update_data of None \<Rightarrow> notes_text n | Some t \<Rightarrow> t)"
    by (simp add: set_fields_update_fields_of)
  from ident found reread r fields users coll show ?thesis
    by blast
qed

lemma sample_update:
  "update_note sample_db ''00000000000000000000000a''
       \<lparr>update_project_name = None, update_notes = Some ''final''\<rparr> ''tok-alice'' =
     (Inr \<lparr>success = True, message = ''Note updated successfully'',
           data = stringify_id final_note\<rparr>, updated_db)"
  by code_simp

theorem update_changes_only_named_fields_witness:
  "update_note sample_db ''00000000000000000000000a''
       \<lparr>update_project_name = None, update_notes = Some ''final''\<rparr> ''tok-alice'' =
     (Inr \<lparr>success = True, message = ''Note updated successfully'',
           data = stringify_id final_note\<rparr>, updated_db) \<and>
   user_collection updated_db = user_collection sample_db \<and>
   list_all2
     (\<lambda>n n'. doc_id n' = doc_id n \<and>
              created_by_user_email n' = created_by_user_email n \<and>
              created_date n' = created_date n \<and>
              (update_project_name \<lparr>update_project_name = None, update_notes = Some ''final''\<rparr> = None
                 \<longrightarrow> project_name n' = project_name n) \<and>
              (update_notes \<lparr>update_project_name = None, update_notes = Some ''final''\<rparr> = None
                 \<longrightarrow> notes_text n' = notes_text n) \<and>
              (ObjectId ''00000000000000000000000a'' \<noteq> Some (doc_id n) \<longrightarrow> n' = n))
     (notes_collection sample_db) (notes_collection updated_db)"
  using update_changes_only_named_fields [OF sample_update] sample_update
  by (simp only: simp_thms)

subsection \<open>Listing, deleting, and the round trip\<close>

text \<open>
  Claim C6. For an authenticated caller, list-all returns every note of the collection, in
  storage order and unfiltered, and list-mine returns exactly the notes whose
  \<^verbatim>\<open>created_by_user_email\<close> is the caller's email. Each returned note carries the stored
  \<^verbatim>\<open>project_name\<close>, \<^verbatim>\<open>created_by_user_email\<close>, \<^verbatim>\<open>created_date\<close> and \<^verbatim>\<open>notes\<close>, with its
  identifier rendered as a string; every note of list-mine has the caller's email. In both
  responses \<^verbatim>\<open>count\<close> is the length of \<^verbatim>\<open>data\<close>, and the database is unchanged.
\<close>

theorem list_all_and_list_mine:
  assumes auth: "find_one_token (user_collection d) credentials = Some u"
  shows "(\<exists>r. get_all_notes d credentials = (Inr r, d) \<and>
              data r =
                map (\<lambda>n. \<lparr>doc_id = str_ObjectId (doc_id n), project_name = project_name n,
                           created_by_user_email = created_by_user_email n,
                           created_date = created_date n, notes_text = notes_text n\<rparr>)
                  (notes_collection d) \<and>
              length (data r) = length (notes_collection d) \<and>
              count r = length (data r)) \<and>
         (\<exists>r. get_my_notes d credentials = (Inr r, d) \<and>
              data r =
                map (\<lambda>n. \<lparr>doc_id = str_ObjectId (doc_id n), project_name = project_name n,
                           created_by_user_email = created_by_user_email n,
                           created_date = created_date n, notes_text = notes_text n\<rparr>)
                  (filter (\<lambda>n. created_by_user_email n = email u) (notes_collection d)) \<and>
              (\<forall>m \<in> set (data r). created_by_user_email m = email u) \<and>
              count r = length (data r))"
proof -
  have render: "stringify_id =
      (\<lambda>n. \<lparr>doc_id = str_ObjectId (doc_id n), project_name = project_name n,
             created_by_user_email = created_by_user_email n,
             created_date = created_date n, notes_text = notes_text n\<rparr>)"
    by (rule ext) (simp add: stringify_id_def with_id_def)
  show ?thesis
    by (simp add: get_all_notes_def get_my_notes_def auth find_all_def find_by_email_def
        Let_def render)
qed

theorem list_all_and_list_mine_witness:
  "(\<exists>r. get_all_notes sample_db ''tok-bob'' = (Inr r, sample_db) \<and>
        data r =
          [\<lparr>doc_id = ''00000000000000000000000a'', project_name = ''Site'',
            created_by_user_email = ''alice@x.com'', created_date = ''2026-02-04 14:30:00'',
            notes_text = ''draft''\<rparr>,
           \<lparr>doc_id = ''000000000000000000000002'', project_name = ''Blog'',
            created_by_user_email = ''bob@x.com'', created_date = ''2026-02-05 09:00:00'',
            notes_text = ''ideas''\<rparr>] \<and>
        count r = 2) \<and>
   (\<exists>r. get_my_notes sample_db ''tok-bob'' = (Inr r, sample_db) \<and>
        data r =
          [\<lparr>doc_id = ''000000000000000000000002'', project_name = ''Blog'',
            created_by_user_email = ''bob@x.com'', created_date = ''2026-02-05 09:00:00'',
            notes_text = ''ideas''\<rparr>] \<and>
        count r = 1)"
proof -
  have all: "notes_collection sample_db = [site_note, blog_note]"
    by (simp add: sample_db_def)
  have mine: "filter (\<lambda>n. created_by_user_email n = email bob) (notes_collection sample_db) =
      [blog_note]"
    by (simp add: sample_db_def site_note_def blog_note_def bob_def)
  have ids: "str_ObjectId 10 = ''00000000000000000000000a''"
    "str_ObjectId 2 = ''000000000000000000000002''"
    by code_simp+
  from list_all_and_list_mine [OF sample_tokens(2)] show ?thesis
    unfolding mine unfolding all by (auto simp: site_note_def blog_note_def ids)
qed

text \<open>
  Claim C7. A successful delete returns \<^verbatim>\<open>success\<close> true, its message and a data object whose
  identifier (the key \<^verbatim>\<open>"_id"\<close> of the source) is the \<^verbatim>\<open>note_id\<close> string of the request itself and
  whose \<^verbatim>\<open>deleted\<close> is true. The witness deletes with an upper-case \<^verbatim>\<open>note_id\<close>, which the
  rendering of the stored identifier (lower case) would not give back.
\<close>

theorem delete_echoes_note_id:
  assumes ok: "delete_note d note_id credentials = (Inr r, d')"
  shows "r = \<lparr>success = True, message = ''Note deleted successfully'',
              data = \<lparr>deleted_id = note_id, deleted = True\<rparr>\<rparr>"
  using ok by (auto simp: delete_note_def Let_def split: option.splits if_splits)

lemma sample_delete:
  "delete_note sample_db ''00000000000000000000000A'' ''tok-alice'' =
     (Inr \<lparr>success = True, message = ''Note deleted successfully'',
           data = \<lparr>deleted_id = ''00000000000000000000000A'', deleted = True\<rparr>\<rparr>,
      sample_db\<lparr>notes_collection := [blog_note]\<rparr>)"
  by code_simp

theorem delete_echoes_note_id_witness:
  "delete_note sample_db ''00000000000000000000000A'' ''tok-alice'' =
     (Inr \<lparr>success = True, message = ''Note deleted successfully'',
           data = \<lparr>deleted_id = ''00000000000000000000000A'', deleted = True\<rparr>\<rparr>,
      sample_db\<lparr>notes_collection := [blog_note]\<rparr>) \<and>
   str_ObjectId (doc_id site_note) = ''00000000000000000000000a''"
proof -
  have s: "str_ObjectId (doc_id site_note) = ''00000000000000000000000a''"
    by code_simp
  obtain r d' where run: "delete_note sample_db ''00000000000000000000000A'' ''tok-alice'' = (Inr r, d')"
    using sample_delete by blast
  from delete_echoes_note_id [OF run] run sample_delete s show ?thesis
    by simp
qed

text \<open>
  Claim C8, as stated, fails: the claim speaks of every user present in the user store, and
  the store answers a token with the first user that holds it. Here \<open>carol\<close> is in the store
  and holds the token \<open>bob\<close> holds, who comes first: the note created under her token
  carries his email, and list-mine under her token lists his notes.
\<close>

theorem create_then_list_mine_counterexample:
  "carol \<in> set (user_collection shared_token_db) \<and>
   email carol = ''carol@x.com'' \<and>
   create_note shared_token_db sample_now 3 mallory_note (token carol) =
     (Inr \<lparr>success = True, message = ''Note created successfully'',
           data = \<lparr>doc_id = ''000000000000000000000003'', project_name = ''P'',
                   created_by_user_email = ''bob@x.com'',
                   created_date = ''2026-02-04 14:30:00'', notes_text = ''N''\<rparr>\<rparr>,
      shared_token_db\<lparr>notes_collection := [site_note, bobs_new_note]\<rparr>) \<and>
   get_my_notes (shared_token_db\<lparr>notes_collection := [site_note, bobs_new_note]\<rparr>) (token carol) =
     (Inr \<lparr>success = True, message = ''Your notes retrieved successfully'',
           data = [\<lparr>doc_id = ''000000000000000000000003'', project_name = ''P'',
                    created_by_user_email = ''bob@x.com'',
                    created_date = ''2026-02-04 14:30:00'', notes_text = ''N''\<rparr>],
           count = 1\<rparr>,
      shared_token_db\<lparr>notes_collection := [site_note, bobs_new_note]\<rparr>)"
  by code_simp

text \<open>
  Claim C8, amended. Round trip: for a user \<open>u\<close> of the user store to whom the store resolves
  the token of \<open>u\<close> (as it does when no earlier user holds the same token, see
  \<open>find_one_token_distinct\<close>), create under that token succeeds, and list-mine under the same
  token on the resulting database returns the created record, which carries the email of
  \<open>u\<close>, the given \<^verbatim>\<open>project_name\<close> and \<^verbatim>\<open>notes\<close>, and a non-empty identifier string.
\<close>

theorem create_then_list_mine:
  assumes present: "u \<in> set (user_collection d)"
    and auth: "find_one_token (user_collection d) (token u) = Some u"
  shows "\<exists>r d' r'.
           create_note d now inserted_id note_data (token u) = (Inr r, d') \<and>
           get_my_notes d' (token u) = (Inr r', d') \<and>
           data r \<in> set (data r') \<and>
           data r = \<lparr>doc_id = str_ObjectId inserted_id, project_name = project_name note_data,
                     created_by_user_email = email u, created_date = strftime now,
                     notes_text = notes_text note_data\<rparr> \<and>
           created_by_user_email (data r) = email u \<and>
           project_name (data r) = project_name note_data \<and>
           notes_text (data r) = notes_text note_data \<and>
           doc_id (data r) \<noteq> []"
proof -
  have nonempty: "str_ObjectId inserted_id \<noteq> []"
    using str_ObjectId_length [of inserted_id] by auto
  show ?thesis
    by (simp add: create_note_def get_my_notes_def auth Let_def insert_one_def find_by_email_def
        stringify_id_def with_id_def nonempty)
qed

theorem create_then_list_mine_witness:
  "\<exists>r d' r'.
     create_note sample_db sample_now 3 mallory_note ''tok-alice'' = (Inr r, d') \<and>
     get_my_notes d' ''tok-alice'' = (Inr r', d') \<and>
     data r \<in> set (data r') \<and>
     data r = \<lparr>doc_id = ''000000000000000000000003'', project_name = ''P'',
               created_by_user_email = ''alice@x.com'',
               created_date = ''2026-02-04 14:30:00'', notes_text = ''N''\<rparr> \<and>
     created_by_user_email (data r) = ''alice@x.com'' \<and>
     project_name (data r) = ''P'' \<and>
     notes_text (data r) = ''N'' \<and>
     doc_id (data r) \<noteq> []"
proof -
  have p: "alice \<in> set (user_collection sample_db)"
    by (simp add: sample_db_def)
  have a: "find_one_token (user_collection sample_db) (token alice) = Some alice"
    by (simp add: find_one_token_def sample_db_def alice_def)
  have f: "token alice = ''tok-alice''" "email alice = ''alice@x.com''"
    "project_name mallory_note = ''P''" "notes_text mallory_note = ''N''"
    "str_ObjectId 3 = ''000000000000000000000003''"
    "strftime sample_now = ''2026-02-04 14:30:00''"
    by code_simp+
  from create_then_list_mine [OF p a, of sample_now 3 mallory_note] show ?thesis
    unfolding f .
qed

lemma NoteUpdateModel_validate_notes:
  "NoteUpdateModel_validate [''notes'' \<mapsto> JStr s] =
     Some \<lparr>update_project_name = None, update_notes = Some s\<rparr>"
  by (simp add: NoteUpdateModel_validate_def)

lemma NoteUpdateModel_validate_project_name:
  "NoteUpdateModel_validate [''project_name'' \<mapsto> JStr s] =
     Some \<lparr>update_project_name = Some s, update_notes = None\<rparr>"
  by (simp add: NoteUpdateModel_validate_def)

lemma update_note_owner:
  assumes auth: "find_one_token (user_collection d) credentials = Some u"
    and ident: "ObjectId note_id = Some oid"
    and found: "find_one_id (notes_collection d) oid = Some n"
    and own: "created_by_user_email n = email u"
    and some: "update_fields_of update_data \<noteq> []"
  shows "update_note d note_id update_data credentials =
           (Inr \<lparr>success = True, message = ''Note updated successfully'',
                 data = stringify_id (set_fields (update_fields_of update_data) n)\<rparr>,
            d\<lparr>notes_collection :=
                 update_one (notes_collection d) oid (update_fields_of update_data)\<rparr>)"
  by (simp add: update_note_def auth ident found own some find_one_id_update_one Let_def)

text \<open>
  Claim C10. Only an absent or null field counts as absent: for the owner of a stored note,
  an update whose body is \<^verbatim>\<open>{"notes": ""}\<close> (or \<^verbatim>\<open>{"project_name": ""}\<close>) succeeds, returns the
  note with that field empty, and stores it so.
\<close>

theorem update_accepts_empty_string:
  assumes auth: "find_one_token (user_collection d) credentials = Some u"
    and ident: "ObjectId note_id = Some oid"
    and found: "find_one_id (notes_collection d) oid = Some n"
    and own: "created_by_user_email n = email u"
  shows "(\<exists>d'. put_update d note_id [''notes'' \<mapsto> JStr ''''] credentials =
             (Inr \<lparr>success = True, message = ''Note updated successfully'',
                   data = stringify_id (n\<lparr>notes_text := ''''\<rparr>)\<rparr>, d') \<and>
             find_one_id (notes_collection d') oid = Some (n\<lparr>notes_text := ''''\<rparr>)) \<and>
         (\<exists>d'. put_update d note_id [''project_name'' \<mapsto> JStr ''''] credentials =
             (Inr \<lparr>success = True, message = ''Note updated successfully'',
                   data = stringify_id (n\<lparr>project_name := ''''\<rparr>)\<rparr>, d') \<and>
             find_one_id (notes_collection d') oid = Some (n\<lparr>project_name := ''''\<rparr>))"
proof -
  let ?n = "\<lparr>update_project_name = None, update_notes = Some ''''\<rparr>"
  let ?p = "\<lparr>update_project_name = Some '''', update_notes = None\<rparr>"
  have n: "update_fields_of ?n \<noteq> []" and p: "update_fields_of ?p \<noteq> []"
    by (simp_all add: update_fields_of_def)
  have sn: "set_fields (update_fields_of ?n) n = n\<lparr>notes_text := ''''\<rparr>"
    and sp: "set_fields (update_fields_of ?p) n = n\<lparr>project_name := ''''\<rparr>"
    by (simp_all add: set_fields_update_fields_of)
  show ?thesis
    by (simp add: put_update_def NoteUpdateModel_validate_notes
        NoteUpdateModel_validate_project_name
        update_note_owner [OF auth ident found own n] update_note_owner [OF auth ident found own p]
        find_one_id_update_one found sn sp)
qed

theorem update_accepts_empty_string_witness:
  "(\<exists>d'. put_update sample_db ''00000000000000000000000a'' [''notes'' \<mapsto> JStr ''''] ''tok-alice'' =
       (Inr \<lparr>success = True, message = ''Note updated successfully'',
             data = stringify_id (site_note\<lparr>notes_text := ''''\<rparr>)\<rparr>, d') \<and>
       find_one_id (notes_collection d') 10 = Some (site_note\<lparr>notes_text := ''''\<rparr>)) \<and>
   (\<exists>d'. put_update sample_db ''00000000000000000000000a'' [''project_name'' \<mapsto> JStr ''''] ''tok-alice'' =
       (Inr \<lparr>success = True, message = ''Note updated successfully'',
             data = stringify_id (site_note\<lparr>project_name := ''''\<rparr>)\<rparr>, d') \<and>
       find_one_id (notes_collection d') 10 = Some (site_note\<lparr>project_name := ''''\<rparr>))"
proof -
  have own: "created_by_user_email site_note = email alice"
    by (simp add: site_note_def alice_def)
  show ?thesis
    by (rule update_accepts_empty_string [OF sample_tokens(1) sample_ids(1) sample_notes(1) own])
qed

subsection \<open>Create\<close>


lemma strftime_shape:
  "length (strftime t) = 19 \<and> strftime t ! 4 = CHR ''-'' \<and> strftime t ! 7 = CHR ''-'' \<and>
   strftime t ! 10 = CHR '' '' \<and> strftime t ! 13 = CHR '':'' \<and> strftime t ! 16 = CHR '':''"
  by (simp add: strftime_def dec4_def dec2_def)

lemma digit_is_decimal: "digit n \<in> set ''0123456789''"
proof -
  have "n mod 10 < 10" by simp
  then have "n mod 10 \<in> {0, 1, 2, 3, 4, 5, 6, 7, 8, 9}"
    by simp presburger
  then show ?thesis
    by (auto simp: digit_def)
qed





end
